theory Spec2Isabelle
  imports Complex_Main "HOL-Library.AList"
begin

section \<open>The Salesforce service of sf-coverage-viewer\<close>

text \<open>
  A shallow embedding of \<^verbatim>\<open>src/services/salesforce-service.js\<close> and of the start-up
  path of \<^verbatim>\<open>src/app.js\<close>.

  Conventions of the embedding.
  \<^item> An \<^verbatim>\<open>async\<close> method returns a sum: \<open>Inl\<close> is a rejected promise (a thrown
    fault), \<open>Inr\<close> the value it resolves to.
  \<^item> Every method that spawns subprocesses threads the list of the argument vectors
    spawned so far, oldest first, so that the order of the calls is part of the result.
  \<^item> JavaScript numbers are exact rationals: the rounding error of IEEE-754 doubles is
    not part of the model.
  \<^item> Strings are byte strings; \<^verbatim>\<open>trim\<close> and \<^verbatim>\<open>toLowerCase\<close> act on ASCII.
  \<^item> \<^verbatim>\<open>undefined\<close>, \<^verbatim>\<open>null\<close> and a missing property are all \<open>None\<close>.
  \<^item> Console output is not modelled.
\<close>

subsection \<open>Strings\<close>

definition is_space :: "char \<Rightarrow> bool" where
  "is_space c = (c \<in> set [CHR 0x09, CHR 0x0A, CHR 0x0B, CHR 0x0C, CHR 0x0D, CHR '' ''])"

text \<open>\<^verbatim>\<open>String.prototype.trim\<close>.\<close>

definition trim :: "string \<Rightarrow> string" where
  "trim s = rev (dropWhile is_space (rev (dropWhile is_space s)))"

definition toLowerCase_char :: "char \<Rightarrow> char" where
  "toLowerCase_char c =
     (if 65 \<le> (of_char c :: nat) \<and> (of_char c :: nat) \<le> 90
      then char_of ((of_char c :: nat) + 32) else c)"

definition toLowerCase :: "string \<Rightarrow> string" where
  "toLowerCase s = map toLowerCase_char s"

text \<open>\<^verbatim>\<open>s.includes(needle)\<close>: some suffix of \<open>s\<close> starts with \<open>needle\<close>.\<close>

fun includes_str :: "string \<Rightarrow> string \<Rightarrow> bool" where
  "includes_str [] needle = (needle = [])"
| "includes_str (c # cs) needle =
     (take (length needle) (c # cs) = needle \<or> includes_str cs needle)"

text \<open>\<^verbatim>\<open>s.split(sep)\<close> for a separator of one character.\<close>

fun split_str :: "string \<Rightarrow> char \<Rightarrow> string list" where
  "split_str [] sep = [[]]"
| "split_str (c # cs) sep =
     (if c = sep then [] # split_str cs sep
      else (case split_str cs sep of
              [] \<Rightarrow> [[c]]
            | w # ws \<Rightarrow> (c # w) # ws))"

subsection \<open>Faults, subprocess results, the environment\<close>

datatype fault = TypeError string | Error string

text \<open>
  What \<^verbatim>\<open>child_process.spawn\<close> reports first for a child: the \<^verbatim>\<open>close\<close> event
  with the exit code (\<open>None\<close> when a signal or the timeout killed the child) and the
  data collected on stdout and stderr, or the \<^verbatim>\<open>error\<close> event with its message.
\<close>

datatype spawn_outcome = Close "int option" string string | SpawnError string

record cmd_result =
  success :: bool
  stdout :: string
  stderr :: string
  code :: "int option"

text \<open>The records of the CLI's JSON envelopes, as the service reads them.\<close>

record sf_record =
  ApexClassOrTrigger_Name :: "string option"
  NumLinesCovered :: "rat option"
  NumLinesUncovered :: "rat option"
  Name :: "string option"

record query_result =
  records :: "sf_record list option"

record query_envelope =
  result :: "query_result option"

record org_entry =
  org_alias :: "string option"
  username :: "string option"

record org_list_result =
  nonScratchOrgs :: "org_entry list option"
  scratchOrgs :: "org_entry list option"

record org_list_envelope =
  result :: "org_list_result option"

record org_display =
  org_alias :: "string option"
  username :: "string option"
  instanceUrl :: "string option"
  org_id :: "string option"

record org_display_envelope =
  result :: "org_display option"

text \<open>
  The environment of the service: the modules of Node.js it calls. \<^verbatim>\<open>JSON.parse\<close>
  is one field for each envelope the service reads with it; \<open>Inl\<close> is the message of
  the \<^verbatim>\<open>SyntaxError\<close> it throws on malformed text.
\<close>

record env =
  spawn :: "string \<Rightarrow> string list \<Rightarrow> spawn_outcome"
  platform :: string
  path_join :: "string list \<Rightarrow> string"
  existsSync :: "string \<Rightarrow> bool"
  parse_query :: "string \<Rightarrow> string + query_envelope"
  parse_org_list :: "string \<Rightarrow> string + org_list_envelope"
  parse_org_display :: "string \<Rightarrow> string + org_display_envelope"

type_synonym spawn_log = "string list list"

record service =
  sfCommand :: "string list option"

subsection \<open>runCommand, runSFCommand\<close>

text \<open>
  The promise of \<^verbatim>\<open>runCommand\<close> is resolved by whichever event comes first. With no
  \<^verbatim>\<open>args[0]\<close> there is no file to spawn and \<^verbatim>\<open>spawn\<close> throws inside the promise's
  executor. Every caller leaves \<^verbatim>\<open>options\<close> at its default.
\<close>

text \<open>The two handlers that resolve the promise: \<^verbatim>\<open>close\<close> and \<^verbatim>\<open>error\<close>.\<close>

definition resolve_outcome :: "spawn_outcome \<Rightarrow> cmd_result" where
  "resolve_outcome out =
     (case out of
        Close c out err \<Rightarrow>
          \<lparr>success = (c = Some 0), stdout = trim out, stderr = trim err, code = c\<rparr>
      | SpawnError msg \<Rightarrow>
          \<lparr>success = False, stdout = [], stderr = msg, code = Some (- 1)\<rparr>)"

definition runCommand :: "env \<Rightarrow> string list \<Rightarrow> spawn_log \<Rightarrow> (fault + cmd_result) \<times> spawn_log" where
  "runCommand e args w =
     (case args of
        [] \<Rightarrow> (Inl (TypeError ''The \"file\" argument must be of type string''), w)
      | file # rest \<Rightarrow> (Inr (resolve_outcome (spawn e file rest)), w @ [args]))"

definition runSFCommand ::
  "env \<Rightarrow> service \<Rightarrow> string list \<Rightarrow> spawn_log \<Rightarrow> (fault + cmd_result) \<times> spawn_log" where
  "runSFCommand e s args w =
     (case sfCommand s of
        None \<Rightarrow> (Inl (TypeError ''this.sfCommand is not iterable''), w)
      | Some cmd \<Rightarrow> runCommand e (cmd @ args) w)"

subsection \<open>The coverage query\<close>

record cov_entry =
  covered :: rat
  uncovered :: rat
  total :: rat
  percentage :: rat

text \<open>
  The response object. \<open>coverage\<close> is the object used as a dictionary: an association
  list in insertion order, where assigning to a present key replaces its value in place.
\<close>

record response =
  success :: bool
  coverage :: "(string \<times> cov_entry) list"
  totalCovered :: rat
  totalUncovered :: rat
  overallPercentage :: rat
  error :: "string option"
  toolingAPIUsed :: bool

text \<open>\<^verbatim>\<open>Math.round\<close>: the nearest integer, a half going up.\<close>

definition Math_round :: "rat \<Rightarrow> rat" where
  "Math_round x = of_int \<lfloor>x + 1 / 2\<rfloor>"

text \<open>\<^verbatim>\<open>x || 0\<close> on an optional number.\<close>

definition or_zero :: "rat option \<Rightarrow> rat" where
  "or_zero x = (case x of None \<Rightarrow> 0 | Some n \<Rightarrow> n)"

text \<open>A string is truthy when it is present and not empty.\<close>

definition truthy :: "string option \<Rightarrow> bool" where
  "truthy x = (case x of None \<Rightarrow> False | Some n \<Rightarrow> n \<noteq> [])"

definition probe_query :: string where
  "probe_query = ''SELECT COUNT() FROM ApexClass LIMIT 1''"

definition coverage_query :: string where
  "coverage_query =
     [CHR 0x0A] @ ''                SELECT ApexClassOrTrigger.Name, NumLinesCovered, NumLinesUncovered '' @
     [CHR 0x0A] @ ''                FROM ApexCodeCoverageAggregate '' @
     [CHR 0x0A] @ ''                WHERE ApexClassOrTrigger.NamespacePrefix = null'' @
     [CHR 0x0A] @ ''                ORDER BY ApexClassOrTrigger.Name'' @
     [CHR 0x0A] @ ''            ''"

definition fallback_query :: string where
  "fallback_query = ''SELECT Id, Name FROM ApexClass WHERE NamespacePrefix = null LIMIT 50''"

definition probe_args :: "string \<Rightarrow> string list" where
  "probe_args orgAlias =
     [''data'', ''query'', ''--query'', probe_query,
      ''--target-org'', orgAlias, ''--use-tooling-api'', ''--json'']"

definition coverage_args :: "string \<Rightarrow> string list" where
  "coverage_args orgAlias =
     [''data'', ''query'', ''--query'', coverage_query,
      ''--target-org'', orgAlias, ''--use-tooling-api'', ''--json'']"

definition fallback_args :: "string \<Rightarrow> string list" where
  "fallback_args orgAlias =
     [''data'', ''query'', ''--query'', fallback_query,
      ''--target-org'', orgAlias, ''--json'']"

definition testToolingAPI ::
  "env \<Rightarrow> service \<Rightarrow> string \<Rightarrow> spawn_log \<Rightarrow> (fault + bool) \<times> spawn_log" where
  "testToolingAPI e s orgAlias w =
     (case runSFCommand e s (probe_args orgAlias) w of
        (Inl f, w') \<Rightarrow> (Inl f, w')
      | (Inr r, w') \<Rightarrow> (Inr (cmd_result.success r), w'))"

text \<open>The body of the \<^verbatim>\<open>forEach\<close> on the tooling path.\<close>

definition process_coverage :: "sf_record \<Rightarrow> response \<Rightarrow> response" where
  "process_coverage record response =
     (let name = ApexClassOrTrigger_Name record in
      if truthy name then
        (let covered = or_zero (NumLinesCovered record);
             uncovered = or_zero (NumLinesUncovered record);
             total = covered + uncovered
         in response
             \<lparr>coverage := AList.update (the name)
                  \<lparr>covered = covered, uncovered = uncovered, total = total,
                   percentage = (if total > 0
                                 then Math_round ((covered / total * 100) * 100) / 100
                                 else 0)\<rparr>
                  (coverage response),
              totalCovered := totalCovered response + covered,
              totalUncovered := totalUncovered response + uncovered\<rparr>)
      else response)"

text \<open>The body of the \<^verbatim>\<open>forEach\<close> on the fallback path.\<close>

definition process_class :: "sf_record \<Rightarrow> response \<Rightarrow> response" where
  "process_class record response =
     (let name = Name record in
      if truthy name then
        response
          \<lparr>coverage := AList.update (the name)
               \<lparr>covered = 0, uncovered = 0, total = 0, percentage = 0\<rparr>
               (coverage response)\<rparr>
      else response)"

definition initial_response :: response where
  "initial_response =
     \<lparr>success = False, coverage = [], totalCovered = 0, totalUncovered = 0,
      overallPercentage = 0, error = None, toolingAPIUsed = False\<rparr>"

text \<open>The records of an envelope: \<^verbatim>\<open>data.result?.records || []\<close>.\<close>

definition records_of :: "query_envelope \<Rightarrow> sf_record list" where
  "records_of data =
     (case query_envelope.result data of
        None \<Rightarrow> []
      | Some r \<Rightarrow> (case records r of None \<Rightarrow> [] | Some rs \<Rightarrow> rs))"

text \<open>The \<^verbatim>\<open>try\<close> block once \<^verbatim>\<open>JSON.parse\<close> has returned.\<close>

definition fill_response :: "bool \<Rightarrow> query_envelope \<Rightarrow> response \<Rightarrow> response" where
  "fill_response toolingAvailable data response =
     (let recs = records_of data;
          response =
            (if toolingAvailable then fold process_coverage recs response
             else (fold process_class recs response)
                    \<lparr>error := Some ''Tooling API not available - showing class list only''\<rparr>);
          totalLines = totalCovered response + totalUncovered response
      in response
           \<lparr>overallPercentage :=
              (if totalLines > 0
               then Math_round ((totalCovered response / totalLines * 100) * 100) / 100
               else 0),
            success := True\<rparr>)"

definition getCoverageData ::
  "env \<Rightarrow> service \<Rightarrow> string \<Rightarrow> spawn_log \<Rightarrow> (fault + response) \<times> spawn_log" where
  "getCoverageData e s orgAlias w =
     (case testToolingAPI e s orgAlias w of
        (Inl f, w1) \<Rightarrow> (Inl f, w1)
      | (Inr toolingAvailable, w1) \<Rightarrow>
          (let response = initial_response\<lparr>toolingAPIUsed := toolingAvailable\<rparr> in
           case runSFCommand e s
                  (if toolingAvailable then coverage_args orgAlias else fallback_args orgAlias)
                  w1 of
             (Inl f, w2) \<Rightarrow> (Inl f, w2)
           | (Inr res, w2) \<Rightarrow>
               if \<not> cmd_result.success res then
                 (Inr (response\<lparr>error := Some (''Query failed: '' @ stderr res)\<rparr>), w2)
               else
                 (case parse_query e (stdout res) of
                    Inl msg \<Rightarrow>
                      (Inr (response\<lparr>error := Some (''Failed to parse data: '' @ msg)\<rparr>), w2)
                  | Inr data \<Rightarrow> (Inr (fill_response toolingAvailable data response), w2))))"

subsection \<open>Listing and displaying orgs\<close>

record org_descriptor =
  org_alias :: string
  username :: string
  org_type :: string
  org_identifier :: "string option"

text \<open>\<^verbatim>\<open>x || ''\<close> and \<^verbatim>\<open>x || y\<close> on optional strings.\<close>

definition or_empty :: "string option \<Rightarrow> string" where
  "or_empty x = (if truthy x then the x else [])"

definition or_else :: "string option \<Rightarrow> string option \<Rightarrow> string option" where
  "or_else x y = (if truthy x then x else y)"

text \<open>The object pushed for one org of either list.\<close>

definition descriptor :: "string \<Rightarrow> org_entry \<Rightarrow> org_descriptor" where
  "descriptor kind org =
     \<lparr>org_alias = or_empty (org_entry.org_alias org),
      username = or_empty (org_entry.username org),
      org_type = kind,
      org_identifier = or_else (org_entry.org_alias org) (org_entry.username org)\<rparr>"

definition nonScratch_of :: "org_list_envelope \<Rightarrow> org_entry list" where
  "nonScratch_of data =
     (case org_list_envelope.result data of
        None \<Rightarrow> []
      | Some r \<Rightarrow> (case nonScratchOrgs r of None \<Rightarrow> [] | Some orgs \<Rightarrow> orgs))"

definition scratch_of :: "org_list_envelope \<Rightarrow> org_entry list" where
  "scratch_of data =
     (case org_list_envelope.result data of
        None \<Rightarrow> []
      | Some r \<Rightarrow> (case scratchOrgs r of None \<Rightarrow> [] | Some orgs \<Rightarrow> orgs))"

definition getAvailableOrgs ::
  "env \<Rightarrow> service \<Rightarrow> spawn_log \<Rightarrow> (fault + org_descriptor list) \<times> spawn_log" where
  "getAvailableOrgs e s w =
     (case runSFCommand e s [''org'', ''list'', ''--json''] w of
        (Inl f, w') \<Rightarrow> (Inl f, w')
      | (Inr res, w') \<Rightarrow>
          if \<not> cmd_result.success res then (Inr [], w')
          else
            (case parse_org_list e (stdout res) of
               Inl msg \<Rightarrow> (Inr [], w')
             | Inr data \<Rightarrow>
                 (Inr (map (descriptor ''Production/Sandbox'') (nonScratch_of data) @
                       map (descriptor ''Scratch Org'') (scratch_of data)), w')))"

record org_info =
  name :: string
  url :: string
  username :: string
  org_id :: string



subsection \<open>Finding the CLI, start-up\<close>

text \<open>The loop over the simple commands; a rejected run is caught and the loop goes on.\<close>

fun try_simple :: "env \<Rightarrow> string list \<Rightarrow> spawn_log \<Rightarrow> string list option \<times> spawn_log" where
  "try_simple e [] w = (None, w)"
| "try_simple e (cmd # cmds) w =
     (case runCommand e (split_str cmd CHR '' '' @ [''--version'']) w of
        (Inl f, w') \<Rightarrow> try_simple e cmds w'
      | (Inr res, w') \<Rightarrow>
          if cmd_result.success res \<and> includes_str (toLowerCase (stdout res)) ''salesforce''
          then (Some (split_str cmd CHR '' ''), w')
          else try_simple e cmds w')"

text \<open>The loop over the paths under the npm prefix.\<close>

fun try_paths :: "env \<Rightarrow> string list \<Rightarrow> spawn_log \<Rightarrow> string list option \<times> spawn_log" where
  "try_paths e [] w = (None, w)"
| "try_paths e (sfPath # sfPaths) w =
     (if existsSync e sfPath then
        (case runCommand e [sfPath, ''--version''] w of
           (Inl f, w') \<Rightarrow> try_paths e sfPaths w'
         | (Inr testResult, w') \<Rightarrow>
             if cmd_result.success testResult then (Some [sfPath], w')
             else try_paths e sfPaths w')
      else try_paths e sfPaths w)"

definition simpleCommands :: "string list" where
  "simpleCommands = [''sf'', ''npx sf'']"

definition possiblePaths :: "env \<Rightarrow> string \<Rightarrow> string list" where
  "possiblePaths e npmPrefix =
     (let isWindows = (platform e = ''win32'');
          sfFile = (if isWindows then ''sf.cmd'' else ''sf'')
      in [path_join e [npmPrefix, ''node_modules'', ''.bin'', sfFile],
          path_join e [npmPrefix, ''bin'', sfFile]])"

definition findSFCLI :: "env \<Rightarrow> spawn_log \<Rightarrow> string list option \<times> spawn_log" where
  "findSFCLI e w =
     (case try_simple e simpleCommands w of
        (Some cmd, w1) \<Rightarrow> (Some cmd, w1)
      | (None, w1) \<Rightarrow>
          (case runCommand e [''npm'', ''config'', ''get'', ''prefix''] w1 of
             (Inl f, w2) \<Rightarrow> (None, w2)
           | (Inr npmResult, w2) \<Rightarrow>
               if cmd_result.success npmResult
               then try_paths e (possiblePaths e (trim (stdout npmResult))) w2
               else (None, w2)))"

definition initialize ::
  "env \<Rightarrow> service \<Rightarrow> spawn_log \<Rightarrow> (fault + unit) \<times> service \<times> spawn_log" where
  "initialize e s w =
     (case findSFCLI e w of
        (None, w') \<Rightarrow>
          (Inl (Error ''SF CLI not found. Please install SF CLI.''), s\<lparr>sfCommand := None\<rparr>, w')
      | (Some cmd, w') \<Rightarrow> (Inr (), s\<lparr>sfCommand := Some cmd\<rparr>, w'))"

text \<open>
  \<^verbatim>\<open>CoverageApp.init\<close>: the server starts only when \<^verbatim>\<open>initialize\<close> returns; the
  handler of its fault ends the process with the exit code 1. Creating the server and
  listening are taken not to throw.
\<close>

datatype app_state = Listening service | ProcessExit int

definition init :: "env \<Rightarrow> service \<Rightarrow> spawn_log \<Rightarrow> app_state \<times> spawn_log" where
  "init e s w =
     (case initialize e s w of
        (Inl err, s', w') \<Rightarrow> (ProcessExit 1, w')
      | (Inr u, s', w') \<Rightarrow> (Listening s', w'))"

text \<open>The constructor of the service.\<close>

definition new_service :: service where
  "new_service = \<lparr>sfCommand = None\<rparr>"

section \<open>Definitions for the properties\<close>

text \<open>
  The result \<open>runCommand\<close> resolves to for an argument vector that names a file. It
  is applied to non-empty vectors only.
\<close>

definition exec :: "env \<Rightarrow> string list \<Rightarrow> cmd_result" where
  "exec e args = resolve_outcome (spawn e (hd args) (tl args))"

text \<open>The arguments of the query that follows the probe.\<close>

definition query_args :: "bool \<Rightarrow> string \<Rightarrow> string list" where
  "query_args t a = (if t then coverage_args a else fallback_args a)"

text \<open>Rounding to two decimals, \<open>round(x, 2)\<close> of the specification, a half going up.\<close>

definition round2 :: "rat \<Rightarrow> rat" where
  "round2 x = Math_round (x * 100) / 100"


text \<open>The percentage under the guard of the code: 0 unless the total is positive.\<close>

definition guarded_percentage :: "rat \<Rightarrow> rat \<Rightarrow> rat" where
  "guarded_percentage c t = (if t > 0 then round2 (c / t * 100) else 0)"

text \<open>The entry stored for a record with the given counts.\<close>

definition coverage_entry :: "rat \<Rightarrow> rat \<Rightarrow> cov_entry" where
  "coverage_entry c u =
     \<lparr>covered = c, uncovered = u, total = c + u, percentage = guarded_percentage c (c + u)\<rparr>"

text \<open>The records that the tooling path stores: those with a truthy name.\<close>

definition named :: "sf_record \<Rightarrow> bool" where
  "named r = truthy (ApexClassOrTrigger_Name r)"

text \<open>A service after \<open>initialize\<close> has found \<open>sf\<close>.\<close>

definition demo_service :: service where
  "demo_service = \<lparr>sfCommand = Some [''sf'']\<rparr>"


text \<open>
  An environment for the org \<open>dev\<close>: the probe ends with the first outcome, every
  other command with the second, and the text \<open>{records}\<close> parses to the given
  records.
\<close>

definition query_env :: "spawn_outcome \<Rightarrow> spawn_outcome \<Rightarrow> sf_record list \<Rightarrow> env" where
  "query_env probe query recs =
     \<lparr>spawn = (\<lambda>file rest. if rest = probe_args ''dev'' then probe else query),
      platform = ''linux'',
      path_join = (\<lambda>ps. case ps of [] \<Rightarrow> ''.''
         | p # qs \<Rightarrow> p @ concat (map (\<lambda>q. CHR ''/'' # q) qs)),
      existsSync = (\<lambda>p. False),
      parse_query = (\<lambda>s. if s = ''{records}''
         then Inr \<lparr>query_envelope.result = Some \<lparr>records = Some recs\<rparr>\<rparr>
         else Inl ''Unexpected token < in JSON at position 0''),
      parse_org_list = (\<lambda>s. Inl ''Unexpected token < in JSON at position 0''),
      parse_org_display = (\<lambda>s. Inl ''Unexpected token < in JSON at position 0'')\<rparr>"

text \<open>A child that exits with code 0 and the given output.\<close>

definition ok_outcome :: "string \<Rightarrow> spawn_outcome" where
  "ok_outcome out = Close (Some 0) out []"

text \<open>The names under which the tooling path stores the records, in order.\<close>

definition record_names :: "sf_record list \<Rightarrow> string list" where
  "record_names recs = map (\<lambda>r. the (ApexClassOrTrigger_Name r)) (filter named recs)"


text \<open>The arguments of the two org commands.\<close>

definition org_list_args :: "string list" where
  "org_list_args = [''org'', ''list'', ''--json'']"


text \<open>The entry of the fallback path.\<close>

definition zero_entry :: cov_entry where
  "zero_entry = \<lparr>covered = 0, uncovered = 0, total = 0, percentage = 0\<rparr>"

text \<open>The names under which the fallback path stores the records, in order.\<close>

definition class_names :: "sf_record list \<Rightarrow> string list" where
  "class_names recs = map (\<lambda>r. the (Name r)) (filter (\<lambda>r. truthy (Name r)) recs)"

text \<open>A record of the class listing.\<close>

definition class_record :: "string \<Rightarrow> sf_record" where
  "class_record n =
     \<lparr>ApexClassOrTrigger_Name = None, NumLinesCovered = None,
      NumLinesUncovered = None, Name = Some n\<rparr>"

text \<open>A child that exits with code 1 and the given text on stderr.\<close>

definition failed_outcome :: "string \<Rightarrow> spawn_outcome" where
  "failed_outcome err = Close (Some 1) [] err"


definition npm_prefix_args :: "string list" where
  "npm_prefix_args = [''npm'', ''config'', ''get'', ''prefix'']"




text \<open>The elements of a list up to and including the first that satisfies \<open>P\<close>.\<close>

definition through_first :: "('a \<Rightarrow> bool) \<Rightarrow> 'a list \<Rightarrow> 'a list" where
  "through_first P xs = take (Suc (length (takeWhile (\<lambda>x. \<not> P x) xs))) xs"


text \<open>
  An environment given by the outcome of each argument vector, the files that exist and
  the envelope that the text \<open>{orgs}\<close> parses to.
\<close>

definition cli_env :: "(string list \<Rightarrow> spawn_outcome) \<Rightarrow> (string \<Rightarrow> bool) \<Rightarrow> org_list_envelope \<Rightarrow> env" where
  "cli_env run exists orgs =
     \<lparr>spawn = (\<lambda>file rest. run (file # rest)),
      platform = ''linux'',
      path_join = (\<lambda>ps. case ps of [] \<Rightarrow> ''.''
         | p # qs \<Rightarrow> p @ concat (map (\<lambda>q. CHR ''/'' # q) qs)),
      existsSync = exists,
      parse_query = (\<lambda>s. Inl ''Unexpected token < in JSON at position 0''),
      parse_org_list = (\<lambda>s. if s = ''{orgs}'' then Inr orgs
         else Inl ''Unexpected token < in JSON at position 0''),
      parse_org_display = (\<lambda>s. Inl ''Unexpected token < in JSON at position 0'')\<rparr>"

definition no_orgs :: org_list_envelope where
  "no_orgs = \<lparr>org_list_envelope.result = None\<rparr>"


definition nothing_runs :: "string list \<Rightarrow> spawn_outcome" where
  "nothing_runs args = SpawnError ''spawn ENOENT''"

definition all_ok :: "string \<Rightarrow> string list \<Rightarrow> spawn_outcome" where
  "all_ok out args = Close (Some 0) out []"

text \<open>Org lists: one with an alias, one with a username only, one with neither; and a single org with empty alias and username.\<close>

definition three_orgs :: org_list_envelope where
  "three_orgs =
     \<lparr>org_list_envelope.result = Some
        \<lparr>nonScratchOrgs = Some
           [\<lparr>org_entry.org_alias = Some ''prod'', username = Some ''admin@example.com''\<rparr>,
            \<lparr>org_entry.org_alias = None, username = Some ''dev@example.com''\<rparr>],
         scratchOrgs = Some
           [\<lparr>org_entry.org_alias = None, username = None\<rparr>]\<rparr>\<rparr>"

definition nameless_org :: org_list_envelope where
  "nameless_org =
     \<lparr>org_list_envelope.result = Some
        \<lparr>nonScratchOrgs = Some [\<lparr>org_entry.org_alias = Some [], username = Some []\<rparr>],
         scratchOrgs = None\<rparr>\<rparr>"

section \<open>Auxiliary lemmas\<close>

lemma runCommand_nonempty:
  "args \<noteq> [] \<Longrightarrow> runCommand e args w = (Inr (exec e args), w @ [args])"
  by (cases args) (simp_all add: runCommand_def exec_def)

lemma runSFCommand_Some:
  "sfCommand s = Some cmd \<Longrightarrow> args \<noteq> [] \<Longrightarrow>
   runSFCommand e s args w = (Inr (exec e (cmd @ args)), w @ [cmd @ args])"
  by (simp add: runSFCommand_def runCommand_nonempty)

lemma args_nonempty [simp]:
  "probe_args a \<noteq> []" "coverage_args a \<noteq> []" "fallback_args a \<noteq> []"
  by (simp_all add: probe_args_def coverage_args_def fallback_args_def)

lemma testToolingAPI_Some:
  "sfCommand s = Some cmd \<Longrightarrow>
   testToolingAPI e s a w =
     (Inr (cmd_result.success (exec e (cmd @ probe_args a))), w @ [cmd @ probe_args a])"
  by (simp add: testToolingAPI_def runSFCommand_Some)

lemma getCoverageData_Some:
  assumes "sfCommand s = Some cmd"
  shows "getCoverageData e s a w =
    (let t = cmd_result.success (exec e (cmd @ probe_args a));
         res = exec e (cmd @ query_args t a);
         response = initial_response\<lparr>toolingAPIUsed := t\<rparr>
     in (Inr (if \<not> cmd_result.success res
              then response\<lparr>error := Some (''Query failed: '' @ stderr res)\<rparr>
              else (case parse_query e (stdout res) of
                      Inl msg \<Rightarrow> response\<lparr>error := Some (''Failed to parse data: '' @ msg)\<rparr>
                    | Inr data \<Rightarrow> fill_response t data response)),
         w @ [cmd @ probe_args a, cmd @ query_args t a]))"
  using assms
  by (simp add: getCoverageData_def testToolingAPI_Some runSFCommand_Some query_args_def Let_def
           split: sum.splits)

lemma in_set_update:
  "(k', v') \<in> set (AList.update k v al) \<Longrightarrow> (k', v') = (k, v) \<or> (k', v') \<in> set al"
  by (induction al) (auto split: if_splits)

lemma update_fresh: "k \<notin> fst ` set al \<Longrightarrow> AList.update k v al = al @ [(k, v)]"
  by (induction al) auto

lemma process_coverage_eq:
  "process_coverage rec r =
     (if named rec then
        r\<lparr>coverage := AList.update (the (ApexClassOrTrigger_Name rec))
              (coverage_entry (or_zero (NumLinesCovered rec)) (or_zero (NumLinesUncovered rec)))
              (coverage r),
          totalCovered := totalCovered r + or_zero (NumLinesCovered rec),
          totalUncovered := totalUncovered r + or_zero (NumLinesUncovered rec)\<rparr>
      else r)"
  by (simp add: process_coverage_def named_def coverage_entry_def guarded_percentage_def
        round2_def Let_def)





lemma fold_process_class_entries:
  "(k, c) \<in> set (coverage (fold process_class recs r)) \<Longrightarrow>
   (k, c) \<in> set (coverage r) \<or> c = \<lparr>covered = 0, uncovered = 0, total = 0, percentage = 0\<rparr>"
proof (induction recs arbitrary: r)
  case Nil
  then show ?case by simp
next
  case (Cons rec recs)
  from Cons.IH [OF Cons.prems [simplified]]
  show ?case
    by (auto simp: process_class_def Let_def split: if_splits dest: in_set_update)
qed

lemma fold_process_class_fields:
  "response.success (fold process_class recs r) = response.success r"
  "error (fold process_class recs r) = error r"
  "toolingAPIUsed (fold process_class recs r) = toolingAPIUsed r"
  "totalCovered (fold process_class recs r) = totalCovered r"
  "totalUncovered (fold process_class recs r) = totalUncovered r"
  by (induction recs arbitrary: r) (simp_all add: process_class_def Let_def)

lemma trim_records [simp]: "trim ''{records} '' = ''{records}''"
  by (simp add: trim_def is_space_def)

lemma exec_query_env_probe:
  "exec (query_env probe query recs) (''sf'' # probe_args ''dev'') = resolve_outcome probe"
  by (simp add: exec_def query_env_def)

lemma probe_args_neq: "coverage_args a \<noteq> probe_args a'" "fallback_args a \<noteq> probe_args a'"
  by (simp_all add: probe_args_def coverage_args_def fallback_args_def probe_query_def coverage_query_def fallback_query_def)

lemma exec_query_env_query:
  "exec (query_env probe query recs) (''sf'' # coverage_args ''dev'') = resolve_outcome query"
  "exec (query_env probe query recs) (''sf'' # fallback_args ''dev'') = resolve_outcome query"
  by (simp_all add: exec_def query_env_def probe_args_neq)

lemma resolve_ok:
  "resolve_outcome (ok_outcome out) =
     \<lparr>cmd_result.success = True, stdout = trim out, stderr = [], code = Some 0\<rparr>"
  by (simp add: resolve_outcome_def ok_outcome_def trim_def)

lemma parse_query_env:
  "parse_query (query_env probe query recs) ''{records}'' =
     Inr \<lparr>query_envelope.result = Some \<lparr>records = Some recs\<rparr>\<rparr>"
  by (simp add: query_env_def)


lemma fill_response_eq:
  "fill_response t data r =
     (let r' = (if t then fold process_coverage (records_of data) r
                else (fold process_class (records_of data) r)
                       \<lparr>error := Some ''Tooling API not available - showing class list only''\<rparr>)
      in r'\<lparr>overallPercentage :=
               guarded_percentage (totalCovered r') (totalCovered r' + totalUncovered r'),
             response.success := True\<rparr>)"
  by (simp add: fill_response_def guarded_percentage_def round2_def Let_def)







lemma fold_process_coverage_covered_sum:
  assumes "distinct (record_names recs)" "set (record_names recs) \<inter> fst ` set (coverage r) = {}"
  shows "sum_list (map (\<lambda>(n, c). covered c) (coverage (fold process_coverage recs r))) =
         sum_list (map (\<lambda>(n, c). covered c) (coverage r)) +
         sum_list (map (\<lambda>x. or_zero (NumLinesCovered x)) (filter named recs))"
  using assms
proof (induction recs arbitrary: r)
  case Nil
  then show ?case by simp
next
  case (Cons rec recs)
  show ?case
  proof (cases "named rec")
    case True
    let ?n = "the (ApexClassOrTrigger_Name rec)"
    let ?r = "process_coverage rec r"
    have fresh: "?n \<notin> fst ` set (coverage r)"
      using Cons.prems(2) True by (auto simp: record_names_def)
    have cov: "coverage ?r = coverage r @
        [(?n, coverage_entry (or_zero (NumLinesCovered rec)) (or_zero (NumLinesUncovered rec)))]"
      using True fresh by (simp add: process_coverage_eq update_fresh)
    have "distinct (record_names recs)" "?n \<notin> set (record_names recs)"
      using Cons.prems(1) True by (simp_all add: record_names_def)
    moreover have "set (record_names recs) \<inter> fst ` set (coverage r) = {}"
      using Cons.prems(2) True by (auto simp: record_names_def)
    ultimately have "set (record_names recs) \<inter> fst ` set (coverage ?r) = {}"
      by (auto simp: cov)
    from Cons.IH [OF \<open>distinct (record_names recs)\<close> this]
    show ?thesis using True by (simp add: cov coverage_entry_def)
  next
    case False
    then have "process_coverage rec r = r" by (simp add: process_coverage_eq)
    moreover have "record_names (rec # recs) = record_names recs"
      using False by (simp add: record_names_def)
    ultimately show ?thesis using Cons False by simp
  qed
qed

lemma fst_runCommand:
  "fst (runCommand e args w) = Inr r \<Longrightarrow> r = exec e args"
  by (cases args) (auto simp: runCommand_def exec_def)













lemma demo_service_sfCommand: "sfCommand demo_service = Some [''sf'']"
  by (simp add: demo_service_def)

lemma runCommand_query_env_probe:
  "fst (runCommand (query_env probe query recs) ([''sf''] @ probe_args ''dev'') w) =
     Inr (resolve_outcome probe)"
  by (simp add: runCommand_nonempty exec_query_env_probe)

lemma runCommand_query_env_query:
  "fst (runCommand (query_env probe query recs) ([''sf''] @ coverage_args ''dev'') w) =
     Inr (resolve_outcome query)"
  "fst (runCommand (query_env probe query recs) ([''sf''] @ fallback_args ''dev'') w) =
     Inr (resolve_outcome query)"
  by (simp_all add: runCommand_nonempty exec_query_env_query)

lemma success_ok: "cmd_result.success (resolve_outcome (ok_outcome out))"
  by (simp add: resolve_ok)

lemma parse_query_env_ok:
  "parse_query (query_env probe query recs) (stdout (resolve_outcome (ok_outcome ''{records} ''))) =
     Inr \<lparr>query_envelope.result = Some \<lparr>records = Some recs\<rparr>\<rparr>"
  by (simp add: resolve_ok parse_query_env)



lemma getAvailableOrgs_Some:
  assumes "sfCommand s = Some cmd"
  shows "getAvailableOrgs e s w =
    (let res = exec e (cmd @ org_list_args)
     in (Inr (if \<not> cmd_result.success res then []
              else (case parse_org_list e (stdout res) of
                      Inl msg \<Rightarrow> []
                    | Inr data \<Rightarrow>
                        map (descriptor ''Production/Sandbox'') (nonScratch_of data) @
                        map (descriptor ''Scratch Org'') (scratch_of data))),
         w @ [cmd @ org_list_args]))"
  using assms
  by (simp add: getAvailableOrgs_def runSFCommand_Some org_list_args_def Let_def split: sum.splits)


lemma fold_process_class_keys:
  "fst ` set (coverage (fold process_class recs r)) =
     fst ` set (coverage r) \<union> set (class_names recs)"
proof (induction recs arbitrary: r)
  case Nil
  then show ?case by (simp add: class_names_def)
next
  case (Cons rec recs)
  have "fst ` set (coverage (process_class rec r)) =
          fst ` set (coverage r) \<union> set (class_names [rec])"
    by (simp add: process_class_def class_names_def Let_def dom_update)
  moreover have "class_names (rec # recs) = class_names [rec] @ class_names recs"
    by (simp add: class_names_def)
  ultimately show ?case using Cons.IH [of "process_class rec r"] by auto
qed

lemma getCoverageData_fallback:
  assumes "sfCommand s = Some cmd"
    and "\<not> cmd_result.success (exec e (cmd @ probe_args a))"
    and "cmd_result.success (exec e (cmd @ fallback_args a))"
    and "parse_query e (stdout (exec e (cmd @ fallback_args a))) = Inr data"
  shows "getCoverageData e s a w =
    (Inr (fill_response False data (initial_response\<lparr>toolingAPIUsed := False\<rparr>)),
     w @ [cmd @ probe_args a, cmd @ fallback_args a])"
  using assms by (simp add: getCoverageData_Some query_args_def Let_def)

lemma fill_response_fallback:
  defines "r0 \<equiv> initial_response\<lparr>toolingAPIUsed := False\<rparr>"
  shows "response.success (fill_response False data r0)"
    and "error (fill_response False data r0) =
           Some ''Tooling API not available - showing class list only''"
    and "\<not> toolingAPIUsed (fill_response False data r0)"
    and "totalCovered (fill_response False data r0) = 0"
    and "totalUncovered (fill_response False data r0) = 0"
    and "overallPercentage (fill_response False data r0) = 0"
    and "fst ` set (coverage (fill_response False data r0)) = set (class_names (records_of data))"
    and "snd ` set (coverage (fill_response False data r0)) \<subseteq> {zero_entry}"
proof -
  show "snd ` set (coverage (fill_response False data r0)) \<subseteq> {zero_entry}"
    using fold_process_class_entries [of _ _ "records_of data" r0]
    by (auto simp: fill_response_eq Let_def r0_def initial_response_def zero_entry_def)
qed (simp_all add: fill_response_eq Let_def fold_process_class_fields fold_process_class_keys
       r0_def initial_response_def guarded_percentage_def)

lemma resolve_failed:
  "resolve_outcome (failed_outcome err) =
     \<lparr>cmd_result.success = False, stdout = [], stderr = trim err, code = Some 1\<rparr>"
  by (simp add: resolve_outcome_def failed_outcome_def trim_def)












lemma try_simple_log:
  "\<exists>l. snd (try_simple e cmds w) = w @ l \<and>
        set l \<subseteq> (\<lambda>c. split_str c CHR '' '' @ [''--version'']) ` set cmds"
proof (induction cmds arbitrary: w)
  case Nil
  then show ?case by simp
next
  case (Cons c cmds)
  obtain l where "snd (try_simple e cmds (w @ [split_str c CHR '' '' @ [''--version'']])) =
      (w @ [split_str c CHR '' '' @ [''--version'']]) @ l"
    "set l \<subseteq> (\<lambda>c. split_str c CHR '' '' @ [''--version'']) ` set cmds"
    using Cons.IH by blast
  then show ?case
    by (auto simp: runCommand_nonempty)
qed


lemma try_paths_log:
  "\<exists>l. snd (try_paths e ps w) = w @ l \<and> set l \<subseteq> (\<lambda>p. [p, ''--version'']) ` set ps"
proof (induction ps arbitrary: w)
  case Nil
  then show ?case by simp
next
  case (Cons p ps)
  obtain l where "snd (try_paths e ps (w @ [[p, ''--version'']])) = (w @ [[p, ''--version'']]) @ l"
    "set l \<subseteq> (\<lambda>p. [p, ''--version'']) ` set ps"
    using Cons.IH by blast
  moreover obtain l' where "snd (try_paths e ps w) = w @ l'"
    "set l' \<subseteq> (\<lambda>p. [p, ''--version'']) ` set ps"
    using Cons.IH by blast
  ultimately show ?case
    by (auto simp: runCommand_nonempty)
qed


lemma through_first_simps [simp]:
  "through_first P [] = []"
  "through_first P (x # xs) = x # (if P x then [] else through_first P xs)"
  by (simp_all add: through_first_def)




lemma findSFCLI_nothing_runs:
  "findSFCLI (cli_env nothing_runs (\<lambda>p. False) no_orgs) [] =
     (None, [[''sf'', ''--version''], [''npx'', ''sf'', ''--version''], npm_prefix_args])"
  by (simp add: findSFCLI_def simpleCommands_def runCommand_def cli_env_def nothing_runs_def
        resolve_outcome_def npm_prefix_args_def)

lemma descriptor_fields:
  "org_type (descriptor kind org) = kind"
  "org_descriptor.org_alias (descriptor kind org) \<noteq> [] \<longrightarrow>
     org_identifier (descriptor kind org) = Some (org_descriptor.org_alias (descriptor kind org))"
  "org_descriptor.org_alias (descriptor kind org) = [] \<and>
   org_descriptor.username (descriptor kind org) \<noteq> [] \<longrightarrow>
     org_identifier (descriptor kind org) = Some (org_descriptor.username (descriptor kind org))"
  "org_descriptor.org_alias (descriptor kind org) = [] \<and>
   org_descriptor.username (descriptor kind org) = [] \<longrightarrow>
     org_identifier (descriptor kind org) = None \<or> org_identifier (descriptor kind org) = Some []"
  by (auto simp: descriptor_def or_empty_def or_else_def truthy_def split: option.splits)

lemma getAvailableOrgs_all_ok:
  "getAvailableOrgs (cli_env (all_ok ''{orgs}'') exists orgs) demo_service [] =
     (Inr (map (descriptor ''Production/Sandbox'') (nonScratch_of orgs) @
           map (descriptor ''Scratch Org'') (scratch_of orgs)),
      [''sf'' # org_list_args])"
  by (simp add: getAvailableOrgs_Some [where cmd = "[''sf'']"] demo_service_def Let_def
        exec_def cli_env_def all_ok_def resolve_outcome_def trim_def is_space_def)



section \<open>The claims\<close>










text \<open>
  Claim C10. When the probe fails and the class listing succeeds and parses, the response
  has \<open>success\<close> true and an error string at once.
\<close>

theorem fallback_success_has_error:
  assumes "sfCommand s = Some cmd"
    and "fst (runCommand e (cmd @ probe_args a) w) = Inr probe" "\<not> cmd_result.success probe"
    and "fst (runCommand e (cmd @ fallback_args a) w) = Inr res" "cmd_result.success res"
    and "parse_query e (stdout res) = Inr data"
  shows "\<exists>resp w'. getCoverageData e s a w = (Inr resp, w') \<and>
           response.success resp \<and>
           error resp = Some ''Tooling API not available - showing class list only''"
proof -
  have p: "probe = exec e (cmd @ probe_args a)" and r: "res = exec e (cmd @ fallback_args a)"
    using assms(2,4) by (simp_all add: fst_runCommand)
  note run = getCoverageData_fallback
    [OF assms(1) assms(3) [unfolded p] assms(5) [unfolded r] assms(6) [unfolded r], of w]
  show ?thesis by (simp add: run fill_response_fallback)
qed



theorem fallback_success_has_error_witness:
  "\<exists>resp w'.
     getCoverageData
       (query_env (failed_outcome ''ERROR: sObject type ApexClass is not supported '')
          (ok_outcome ''{records} '') [class_record ''Foo''])
       demo_service ''dev'' [] = (Inr resp, w') \<and>
     response.success resp \<and> error resp \<noteq> None"
proof -
  let ?recs = "[class_record ''Foo'']"
  let ?err = "''ERROR: sObject type ApexClass is not supported ''"
  let ?E = "query_env (failed_outcome ?err) (ok_outcome ''{records} '') ?recs"
  have probe: "fst (runCommand ?E ([''sf''] @ probe_args ''dev'') []) =
      Inr (resolve_outcome (failed_outcome ?err))"
    by (rule runCommand_query_env_probe)
  have failed: "\<not> cmd_result.success (resolve_outcome (failed_outcome ?err))"
    by (simp add: resolve_failed)
  have query: "fst (runCommand ?E ([''sf''] @ fallback_args ''dev'') []) =
      Inr (resolve_outcome (ok_outcome ''{records} ''))"
    by (rule runCommand_query_env_query)
  have parsed: "parse_query ?E (stdout (resolve_outcome (ok_outcome ''{records} ''))) =
      Inr \<lparr>query_envelope.result = Some \<lparr>records = Some ?recs\<rparr>\<rparr>"
    by (rule parse_query_env_ok)
  from fallback_success_has_error
    [OF demo_service_sfCommand probe failed query success_ok parsed]
  show ?thesis by auto
qed






text \<open>
  Claim C6. When \<open>findSFCLI\<close> finds no command, \<open>initialize\<close> throws the error
  \<open>SF CLI not found\<close>, and \<open>init\<close> of the application ends the process with exit
  code 1 and does not start the server.
\<close>

theorem tool_not_found_is_fatal:
  assumes "fst (findSFCLI e w) = None"
  shows "fst (initialize e s w) = Inl (Error ''SF CLI not found. Please install SF CLI.'') \<and>
         fst (init e s w) = ProcessExit 1"
  using assms
  by (cases "findSFCLI e w") (simp add: initialize_def init_def)

theorem tool_not_found_is_fatal_witness:
  "fst (findSFCLI (cli_env nothing_runs (\<lambda>p. False) no_orgs) []) = None \<and>
   fst (initialize (cli_env nothing_runs (\<lambda>p. False) no_orgs) new_service []) =
     Inl (Error ''SF CLI not found. Please install SF CLI.'') \<and>
   fst (init (cli_env nothing_runs (\<lambda>p. False) no_orgs) new_service []) = ProcessExit 1"
proof -
  have none: "fst (findSFCLI (cli_env nothing_runs (\<lambda>p. False) no_orgs) []) = None"
    by (simp add: findSFCLI_nothing_runs)
  from tool_not_found_is_fatal [OF none, of new_service] none
  show ?thesis by simp
qed

text \<open>
  Claim C7, as the code has it. The descriptors are those of the non-scratch orgs, typed
  \<open>Production/Sandbox\<close>, followed by those of the scratch orgs, typed \<open>Scratch Org\<close>,
  one for each org the CLI lists, none left out. The identifier of a descriptor is its alias when the
  alias is not empty, and else its username when that is not empty; an org with neither
  gets a descriptor too, with no identifier or an empty one.
\<close>

theorem org_descriptors:
  assumes "sfCommand s = Some cmd"
    and "fst (runCommand e (cmd @ org_list_args) w) = Inr res" "cmd_result.success res"
    and "parse_org_list e (stdout res) = Inr data"
  shows "\<exists>ds. getAvailableOrgs e s w = (Inr ds, w @ [cmd @ org_list_args]) \<and>
      length ds = length (nonScratch_of data) + length (scratch_of data) \<and>
      map org_type ds =
        replicate (length (nonScratch_of data)) ''Production/Sandbox'' @
        replicate (length (scratch_of data)) ''Scratch Org'' \<and>
      map org_descriptor.org_alias ds =
        map (\<lambda>org. or_empty (org_entry.org_alias org)) (nonScratch_of data @ scratch_of data) \<and>
      map org_descriptor.username ds =
        map (\<lambda>org. or_empty (org_entry.username org)) (nonScratch_of data @ scratch_of data) \<and>
      (\<forall>d \<in> set ds.
         (org_descriptor.org_alias d \<noteq> [] \<longrightarrow>
            org_identifier d = Some (org_descriptor.org_alias d)) \<and>
         (org_descriptor.org_alias d = [] \<and> org_descriptor.username d \<noteq> [] \<longrightarrow>
            org_identifier d = Some (org_descriptor.username d)) \<and>
         (org_descriptor.org_alias d = [] \<and> org_descriptor.username d = [] \<longrightarrow>
            org_identifier d = None \<or> org_identifier d = Some []))"
proof -
  have r: "res = exec e (cmd @ org_list_args)"
    using assms(2) by (rule fst_runCommand)
  let ?ds = "map (descriptor ''Production/Sandbox'') (nonScratch_of data) @
             map (descriptor ''Scratch Org'') (scratch_of data)"
  have run: "getAvailableOrgs e s w = (Inr ?ds, w @ [cmd @ org_list_args])"
    using assms(3,4) unfolding r by (simp add: getAvailableOrgs_Some [OF assms(1)] Let_def)
  have types: "map org_type ?ds =
      replicate (length (nonScratch_of data)) ''Production/Sandbox'' @
      replicate (length (scratch_of data)) ''Scratch Org''"
    by (simp add: descriptor_fields(1) comp_def map_replicate_const)
  have fields: "map org_descriptor.org_alias ?ds =
        map (\<lambda>org. or_empty (org_entry.org_alias org)) (nonScratch_of data @ scratch_of data)"
      "map org_descriptor.username ?ds =
        map (\<lambda>org. or_empty (org_entry.username org)) (nonScratch_of data @ scratch_of data)"
    by (simp_all add: descriptor_def comp_def)
  have ids: "(org_descriptor.org_alias d \<noteq> [] \<longrightarrow>
            org_identifier d = Some (org_descriptor.org_alias d)) \<and>
         (org_descriptor.org_alias d = [] \<and> org_descriptor.username d \<noteq> [] \<longrightarrow>
            org_identifier d = Some (org_descriptor.username d)) \<and>
         (org_descriptor.org_alias d = [] \<and> org_descriptor.username d = [] \<longrightarrow>
            org_identifier d = None \<or> org_identifier d = Some [])" if "d \<in> set ?ds" for d
  proof -
    from that obtain kind org where "d = descriptor kind org" by auto
    then show ?thesis using descriptor_fields(2-4) [of kind org] by simp
  qed
  show ?thesis
    using run types fields ids by (intro exI [of _ ?ds]) simp
qed

theorem org_descriptors_witness:
  "sfCommand demo_service = Some [''sf''] \<and>
   parse_org_list (cli_env (all_ok ''{orgs}'') (\<lambda>p. False) three_orgs) ''{orgs}'' =
     Inr three_orgs \<and>
   getAvailableOrgs (cli_env (all_ok ''{orgs}'') (\<lambda>p. False) three_orgs) demo_service [] =
     (Inr [\<lparr>org_alias = ''prod'', username = ''admin@example.com'',
            org_type = ''Production/Sandbox'', org_identifier = Some ''prod''\<rparr>,
           \<lparr>org_alias = [], username = ''dev@example.com'',
            org_type = ''Production/Sandbox'', org_identifier = Some ''dev@example.com''\<rparr>,
           \<lparr>org_alias = [], username = [],
            org_type = ''Scratch Org'', org_identifier = None\<rparr>],
      [''sf'' # org_list_args])"
proof -
  let ?E = "cli_env (all_ok ''{orgs}'') (\<lambda>p. False) three_orgs"
  let ?res = "resolve_outcome (Close (Some 0) ''{orgs}'' [])"
  have out: "stdout ?res = ''{orgs}''" "cmd_result.success ?res"
    by (simp_all add: resolve_outcome_def trim_def is_space_def)
  have run: "fst (runCommand ?E ([''sf''] @ org_list_args) []) = Inr ?res"
    by (simp add: runCommand_def cli_env_def all_ok_def)
  have parsed: "parse_org_list ?E (stdout ?res) = Inr three_orgs"
    by (simp add: out cli_env_def)
  have ds: "map (descriptor ''Production/Sandbox'') (nonScratch_of three_orgs) @
            map (descriptor ''Scratch Org'') (scratch_of three_orgs) =
      [\<lparr>org_alias = ''prod'', username = ''admin@example.com'',
            org_type = ''Production/Sandbox'', org_identifier = Some ''prod''\<rparr>,
           \<lparr>org_alias = [], username = ''dev@example.com'',
            org_type = ''Production/Sandbox'', org_identifier = Some ''dev@example.com''\<rparr>,
           \<lparr>org_alias = [], username = [],
            org_type = ''Scratch Org'', org_identifier = None\<rparr>]"
    by (simp add: three_orgs_def nonScratch_of_def scratch_of_def descriptor_def or_empty_def
          or_else_def truthy_def)
  have eval: "getAvailableOrgs ?E demo_service [] =
     (Inr [\<lparr>org_alias = ''prod'', username = ''admin@example.com'',
            org_type = ''Production/Sandbox'', org_identifier = Some ''prod''\<rparr>,
           \<lparr>org_alias = [], username = ''dev@example.com'',
            org_type = ''Production/Sandbox'', org_identifier = Some ''dev@example.com''\<rparr>,
           \<lparr>org_alias = [], username = [],
            org_type = ''Scratch Org'', org_identifier = None\<rparr>],
      [''sf'' # org_list_args])"
    by (simp only: getAvailableOrgs_all_ok ds)
  show ?thesis
    using org_descriptors [OF demo_service_sfCommand run out(2) parsed]
    apply -
    apply (intro conjI)
      apply (rule demo_service_sfCommand)
     apply (simp add: cli_env_def)
    apply (rule eval)
    done
qed

text \<open>
  Claim C7 as stated fails for an org that the CLI lists with an empty alias and an empty
  username: its descriptor is returned, with both fields and the identifier empty.
\<close>

theorem org_descriptors_counterexample:
  "getAvailableOrgs (cli_env (all_ok ''{orgs}'') (\<lambda>p. False) nameless_org) demo_service [] =
     (Inr [\<lparr>org_alias = [], username = [],
            org_type = ''Production/Sandbox'', org_identifier = Some []\<rparr>],
      [''sf'' # org_list_args])"
  by (simp add: getAvailableOrgs_all_ok)
    (simp add: nameless_org_def nonScratch_of_def scratch_of_def descriptor_def or_empty_def
       or_else_def truthy_def)

end
